theory Spec2Isabelle
  imports
    Main
    "HOL-Library.Word"
    "HOL-Library.Multiset"
    "HOL-Library.Char_ord"
    "HOL-Library.List_Lexorder"
begin

unbundle bit_operations_syntax

section \<open>Raven controller utilities (pkg/yurtmanager/controller/raven/utils/utils.go)\<close>

text \<open>
  A shallow embedding of the helper functions of \<^verbatim>\<open>utils.go\<close>. Go strings are byte
  strings, modelled as \<^typ>\<open>string\<close>; Go maps that are only looked up are partial
  functions; a Go result pair \<^verbatim>\<open>(value, error)\<close> is a pair whose second component is
  \<open>None\<close> for \<^verbatim>\<open>nil\<close>. Functions of the Go standard library and of third-party
  packages are modelled from their documentation; constants and types of the sibling
  package \<^verbatim>\<open>pkg/apis/raven\<close> are parameters.
\<close>

subsection \<open>Constants of the file\<close>

definition WorkingNamespace :: string where
  "WorkingNamespace = ''kube-system''"

definition RavenGlobalConfig :: string where
  "RavenGlobalConfig = ''raven-cfg''"

definition RavenEnableProxy :: string where
  "RavenEnableProxy = ''enable-l7-proxy''"

definition RavenEnableTunnel :: string where
  "RavenEnableTunnel = ''enable-l3-tunnel''"

definition DefaultEnableL7Proxy :: bool where
  "DefaultEnableL7Proxy = False"

definition DefaultEnableL3Tunnel :: bool where
  "DefaultEnableL3Tunnel = True"

definition ConfigCreationTimestampKey :: string where
  "ConfigCreationTimestampKey = ''config-creation-time''"

subsection \<open>Data of the Kubernetes and raven APIs\<close>

text \<open>\<^verbatim>\<open>corev1.NodeAddress\<close>; its type is a string, \<^verbatim>\<open>corev1.NodeInternalIP\<close> one of them.\<close>

record NodeAddress =
  Type :: string
  Address :: string

definition NodeInternalIP :: string where
  "NodeInternalIP = ''InternalIP''"

record NodeStatus =
  Addresses :: "NodeAddress list"

text \<open>
  The fields of \<^verbatim>\<open>corev1.Node\<close> that the file reads. \<open>CreationTimestamp\<close> holds what
  \<^verbatim>\<open>node.CreationTimestamp.Unix()\<close> returns, the seconds since the epoch.
\<close>

record Node =
  Name :: string
  Labels :: "string \<rightharpoonup> string"
  CreationTimestamp :: int
  Status :: NodeStatus

text \<open>\<^verbatim>\<open>corev1.ConfigMap\<close>: only its \<open>Data\<close> is read.\<close>

record ConfigMap =
  Data :: "string \<rightharpoonup> string"

text \<open>
  The constants of the packages \<^verbatim>\<open>raven\<close> and \<^verbatim>\<open>raven/v1beta1\<close> that the file uses.
  Their declarations are in other files of the repository, so they are parameters here.
\<close>

record raven_api =
  LabelNodeProviderPublicIP :: string
  LabelEndpointCandidate :: string
  Tunnel :: string
  DefaultTunnelServerExposedPort :: int

text \<open>\<^verbatim>\<open>v1beta1.Endpoint\<close>, with the fields that the file sets.\<close>

record Endpoint =
  NodeName :: string
  PublicIP :: string
  UnderNAT :: bool
  Type :: string
  Port :: int
  Config :: "string \<rightharpoonup> string"

text \<open>
  An error made by \<^verbatim>\<open>fmt.Errorf\<close> is the place that made it with the arguments of its
  format: the label, the address, the node's name, the node's labels, and for \<^verbatim>\<open>%w\<close>
  the wrapped error.
\<close>

datatype error =
    NoPublicIPLabel string string
  | InvalidPublicIPLabel string string string
  | NoCandidateLabel string "string \<rightharpoonup> string"
  | MissingPublicIP string error "string \<rightharpoonup> string"

subsection \<open>Library functions\<close>

text \<open>
  \<^verbatim>\<open>strings.ToLower\<close> on bytes: an ASCII upper-case letter moves to its lower-case letter and
  every other byte stays. (Go also maps upper-case letters beyond ASCII; none of them maps
  to an ASCII letter of \<^verbatim>\<open>true\<close> or to a hexadecimal digit, which is all the file compares
  the result with.)
\<close>

definition lower :: "char \<Rightarrow> char" where
  "lower c = (if CHR ''A'' \<le> c \<and> c \<le> CHR ''Z'' then char_of (of_char c + (32 :: nat)) else c)"

definition ToLower :: "string \<Rightarrow> string" where
  "ToLower s = map lower s"

text \<open>\<^verbatim>\<open>fmt.Sprintf("%d", n)\<close>: the decimal numeral of an integer.\<close>

function nat_digits :: "nat \<Rightarrow> string" where
  "nat_digits n =
     (if n < 10 then [char_of (48 + n)]
      else nat_digits (n div 10) @ [char_of (48 + n mod 10)])"
  by pat_completeness auto
termination
  by (relation "measure id") auto

declare nat_digits.simps [simp del]

definition Sprintf_d :: "int \<Rightarrow> string" where
  "Sprintf_d i = (if i < 0 then CHR ''-'' # nat_digits (nat (- i)) else nat_digits (nat i))"

subsection \<open>Node addresses and labels\<close>

text \<open>
  \<^verbatim>\<open>net.ParseIP\<close> is a parameter \<open>ParseIP\<close> of the functions that call it: \<open>None\<close> is Go's
  \<^verbatim>\<open>nil\<close>, the answer for a string that is no IP literal.
\<close>

text \<open>The loop of \<^verbatim>\<open>GetNodeInternalIP\<close>; \<open>ip\<close> is the variable it assigns before \<^verbatim>\<open>break\<close>.\<close>

fun GetNodeInternalIP_loop :: "(string \<Rightarrow> 'ip option) \<Rightarrow> NodeAddress list \<Rightarrow> string \<Rightarrow> string" where
  "GetNodeInternalIP_loop ParseIP [] ip = ip"
| "GetNodeInternalIP_loop ParseIP (addr # rest) ip =
     (if NodeAddress.Type addr = NodeInternalIP \<and> ParseIP (Address addr) \<noteq> None
      then Address addr
      else GetNodeInternalIP_loop ParseIP rest ip)"

definition GetNodeInternalIP :: "(string \<Rightarrow> 'ip option) \<Rightarrow> Node \<Rightarrow> string" where
  "GetNodeInternalIP ParseIP node =
     GetNodeInternalIP_loop ParseIP (Addresses (Status node)) ''''"

text \<open>
  The entries that the specification of the lookup speaks of: flagged as internal, with an
  address that is an IP literal.
\<close>

definition is_valid_internal :: "(string \<Rightarrow> 'ip option) \<Rightarrow> NodeAddress \<Rightarrow> bool" where
  "is_valid_internal ParseIP addr =
     (NodeAddress.Type addr = NodeInternalIP \<and> ParseIP (Address addr) \<noteq> None)"

definition GetEdgeNodePublicIP ::
  "(string \<Rightarrow> 'ip option) \<Rightarrow> raven_api \<Rightarrow> Node \<Rightarrow> string \<times> error option" where
  "GetEdgeNodePublicIP ParseIP api node =
     (case Labels node (LabelNodeProviderPublicIP api) of
        None \<Rightarrow> ('''', Some (NoPublicIPLabel (LabelNodeProviderPublicIP api) (Name node)))
      | Some ip \<Rightarrow>
          if ParseIP ip = None
          then ('''', Some (InvalidPublicIPLabel (LabelNodeProviderPublicIP api) ip (Name node)))
          else (ip, None))"

definition IsNodeEndpointCandidate :: "raven_api \<Rightarrow> Node \<Rightarrow> bool" where
  "IsNodeEndpointCandidate api node =
     (case Labels node (LabelEndpointCandidate api) of
        None \<Rightarrow> False
      | Some v \<Rightarrow> v = ''true'')"

definition TryCreateActiveEndpointCandidate ::
  "(string \<Rightarrow> 'ip option) \<Rightarrow> raven_api \<Rightarrow> Node \<Rightarrow> Endpoint option \<times> error option" where
  "TryCreateActiveEndpointCandidate ParseIP api node =
     (case Labels node (LabelEndpointCandidate api) of
        None \<Rightarrow> (None, Some (NoCandidateLabel (LabelEndpointCandidate api) (Labels node)))
      | Some _ \<Rightarrow>
          (case GetEdgeNodePublicIP ParseIP api node of
             (_, Some err) \<Rightarrow>
               (None, Some (MissingPublicIP (LabelNodeProviderPublicIP api) err (Labels node)))
           | (publicIP, None) \<Rightarrow>
               let cfg = Map.empty(ConfigCreationTimestampKey \<mapsto> Sprintf_d (CreationTimestamp node))
               in (Some \<lparr>NodeName = Name node, PublicIP = publicIP, UnderNAT = False,
                          Type = Tunnel api, Port = DefaultTunnelServerExposedPort api,
                          Config = cfg\<rparr>, None)))"

subsection \<open>The feature flags of the configuration map\<close>

text \<open>
  The client is what its \<^verbatim>\<open>Get\<close> answers for a namespace and a name: an error, or the
  configuration map it fills in.
\<close>

type_synonym 'e Client = "string \<times> string \<Rightarrow> 'e + ConfigMap"

definition CheckServer :: "'e Client \<Rightarrow> bool \<times> bool" where
  "CheckServer client =
     (let enableTunnel = DefaultEnableL3Tunnel;
          enableProxy = DefaultEnableL7Proxy
      in case client (WorkingNamespace, RavenGlobalConfig) of
           Inl err \<Rightarrow> (enableProxy, enableTunnel)
         | Inr cm \<Rightarrow>
             let enableProxy =
                   (case Data cm RavenEnableProxy of
                      Some val \<Rightarrow> if ToLower val = ''true'' then True else enableProxy
                    | None \<Rightarrow> enableProxy);
                 enableTunnel =
                   (case Data cm RavenEnableTunnel of
                      Some val \<Rightarrow> if ToLower val = ''true'' then True else enableTunnel
                    | None \<Rightarrow> enableTunnel)
             in (enableProxy, enableTunnel))"

subsection \<open>Ports\<close>

text \<open>
  \<^verbatim>\<open>strconv.Atoi\<close> is \<^verbatim>\<open>ParseInt(s, 10, 0)\<close> on an \<^verbatim>\<open>int\<close> of 64 bits. \<^verbatim>\<open>ParseUint\<close> reads
  the digits into an unsigned 64-bit number and stops with a range error before the
  number would overflow; \<^verbatim>\<open>ParseInt\<close> takes the sign off and checks the signed range.
\<close>

datatype NumError = ErrSyntax | ErrRange

definition maxUint64 :: nat where
  "maxUint64 = 2 ^ 64 - 1"

fun ParseUint_loop :: "string \<Rightarrow> nat \<Rightarrow> nat \<times> NumError option" where
  "ParseUint_loop [] n = (n, None)"
| "ParseUint_loop (c # cs) n =
     (if \<not> (CHR ''0'' \<le> c \<and> c \<le> CHR ''9'') then (0, Some ErrSyntax)
      else if n \<ge> maxUint64 div 10 + 1 then (maxUint64, Some ErrRange)
      else
        let n1 = n * 10 + (of_char c - of_char CHR ''0'')
        in if n1 > maxUint64 then (maxUint64, Some ErrRange) else ParseUint_loop cs n1)"

definition ParseUint :: "string \<Rightarrow> nat \<times> NumError option" where
  "ParseUint s = (if s = [] then (0, Some ErrSyntax) else ParseUint_loop s 0)"

definition ParseInt :: "string \<Rightarrow> int \<times> NumError option" where
  "ParseInt s =
     (if s = [] then (0, Some ErrSyntax)
      else
        let neg = (hd s = CHR ''-'');
            s' = (if hd s = CHR ''+'' \<or> hd s = CHR ''-'' then tl s else s);
            (un, err) = ParseUint s'
        in if err = Some ErrSyntax then (0, err)
           else if \<not> neg \<and> un \<ge> 2 ^ 63 then (2 ^ 63 - 1, Some ErrRange)
           else if neg \<and> un > 2 ^ 63 then (- (2 ^ 63), Some ErrRange)
           else (if neg then - int un else int un, None))"

definition Atoi :: "string \<Rightarrow> int \<times> NumError option" where
  "Atoi s = ParseInt s"

definition IsValidPort :: "string \<Rightarrow> bool" where
  "IsValidPort s =
     (if s = [] then False
      else
        let (port, err) = Atoi s
        in if err \<noteq> None then False
           else if port < 0 \<or> port > 65535 then False
           else True)"

text \<open>
  What the specification calls a base-10 integer: an optional sign and at least one
  decimal digit, with the value of the numeral, however long it is.
\<close>

definition digit_value :: "char \<Rightarrow> nat" where
  "digit_value c = of_char c - of_char CHR ''0''"

fun decimal_from :: "nat \<Rightarrow> string \<Rightarrow> nat" where
  "decimal_from n [] = n"
| "decimal_from n (c # cs) = decimal_from (n * 10 + digit_value c) cs"

definition decimal_value :: "string \<Rightarrow> nat" where
  "decimal_value ds = decimal_from 0 ds"

definition is_digit :: "char \<Rightarrow> bool" where
  "is_digit c = (CHR ''0'' \<le> c \<and> c \<le> CHR ''9'')"

definition base10_integer :: "string \<Rightarrow> int option" where
  "base10_integer s =
     (let neg = (s \<noteq> [] \<and> hd s = CHR ''-'');
          ds = (if s \<noteq> [] \<and> (hd s = CHR ''+'' \<or> hd s = CHR ''-'') then tl s else s)
      in if ds \<noteq> [] \<and> list_all is_digit ds
         then Some (if neg then - int (decimal_value ds) else int (decimal_value ds))
         else None)"

section \<open>The digest of a canonical text\<close>

text \<open>
  \<^verbatim>\<open>sha256.Sum224\<close> is SHA-224 as the standard defines it (the round constants and the
  initial state are written in decimal): the message is padded to whole
  blocks of 64 bytes, every block is compressed into a state of eight 32-bit words, and
  the first seven words of the last state are the 28 bytes of the digest.
\<close>

type_synonym byte = "8 word"

type_synonym u32 = "32 word"

type_synonym sha_state = "u32 \<times> u32 \<times> u32 \<times> u32 \<times> u32 \<times> u32 \<times> u32 \<times> u32"

definition sha256_K :: "u32 list" where
  "sha256_K =
     [
      1116352408, 1899447441, 3049323471, 3921009573,
      961987163, 1508970993, 2453635748, 2870763221,
      3624381080, 310598401, 607225278, 1426881987,
      1925078388, 2162078206, 2614888103, 3248222580,
      3835390401, 4022224774, 264347078, 604807628,
      770255983, 1249150122, 1555081692, 1996064986,
      2554220882, 2821834349, 2952996808, 3210313671,
      3336571891, 3584528711, 113926993, 338241895,
      666307205, 773529912, 1294757372, 1396182291,
      1695183700, 1986661051, 2177026350, 2456956037,
      2730485921, 2820302411, 3259730800, 3345764771,
      3516065817, 3600352804, 4094571909, 275423344,
      430227734, 506948616, 659060556, 883997877,
      958139571, 1322822218, 1537002063, 1747873779,
      1955562222, 2024104815, 2227730452, 2361852424,
      2428436474, 2756734187, 3204031479, 3329325298]"

definition sha224_init :: sha_state where
  "sha224_init =
     (3238371032, 914150663, 812702999, 4144912697,
      4290775857, 1750603025, 1694076839, 3204075428)"

definition Ch :: "u32 \<Rightarrow> u32 \<Rightarrow> u32 \<Rightarrow> u32" where
  "Ch x y z = (x AND y) XOR (NOT x AND z)"

definition Maj :: "u32 \<Rightarrow> u32 \<Rightarrow> u32 \<Rightarrow> u32" where
  "Maj x y z = (x AND y) XOR (x AND z) XOR (y AND z)"

definition big_sigma0 :: "u32 \<Rightarrow> u32" where
  "big_sigma0 x = word_rotr 2 x XOR word_rotr 13 x XOR word_rotr 22 x"

definition big_sigma1 :: "u32 \<Rightarrow> u32" where
  "big_sigma1 x = word_rotr 6 x XOR word_rotr 11 x XOR word_rotr 25 x"

definition small_sigma0 :: "u32 \<Rightarrow> u32" where
  "small_sigma0 x = word_rotr 7 x XOR word_rotr 18 x XOR drop_bit 3 x"

definition small_sigma1 :: "u32 \<Rightarrow> u32" where
  "small_sigma1 x = word_rotr 17 x XOR word_rotr 19 x XOR drop_bit 10 x"

text \<open>Big-endian bytes of a word and of the 64-bit length, and the word of four bytes.\<close>

definition be32 :: "u32 \<Rightarrow> byte list" where
  "be32 w = [ucast (drop_bit 24 w), ucast (drop_bit 16 w), ucast (drop_bit 8 w), ucast w]"

definition be64 :: "nat \<Rightarrow> byte list" where
  "be64 n =
     [word_of_nat (n div 2 ^ 56), word_of_nat (n div 2 ^ 48), word_of_nat (n div 2 ^ 40),
      word_of_nat (n div 2 ^ 32), word_of_nat (n div 2 ^ 24), word_of_nat (n div 2 ^ 16),
      word_of_nat (n div 2 ^ 8), word_of_nat n]"

fun word_of_bytes :: "byte list \<Rightarrow> u32" where
  "word_of_bytes [] = 0"
| "word_of_bytes (b # bs) = push_bit (8 * length bs) (ucast b) OR word_of_bytes bs"

text \<open>
  Padding: the byte \<open>0x80\<close>, zero bytes up to 56 modulo 64, and the length of the message
  in bits.
\<close>

definition sha_pad :: "byte list \<Rightarrow> byte list" where
  "sha_pad m =
     m @ [0x80] @ replicate ((119 - length m mod 64) mod 64) 0 @ be64 (8 * length m)"

fun chunks :: "nat \<Rightarrow> nat \<Rightarrow> 'a list \<Rightarrow> 'a list list" where
  "chunks 0 n xs = []"
| "chunks (Suc k) n xs = take n xs # chunks k n (drop n xs)"

definition blocks :: "byte list \<Rightarrow> byte list list" where
  "blocks m = chunks (length m div 64) 64 m"

definition block_words :: "byte list \<Rightarrow> u32 list" where
  "block_words b = map word_of_bytes (chunks 16 4 b)"

text \<open>The message schedule: each further word comes from four of the sixteen before it.\<close>

fun schedule :: "nat \<Rightarrow> u32 list \<Rightarrow> u32 list" where
  "schedule 0 w = w"
| "schedule (Suc k) w =
     schedule k
       (w @ [small_sigma1 (w ! (length w - 2)) + w ! (length w - 7)
             + small_sigma0 (w ! (length w - 15)) + w ! (length w - 16)])"

fun sha_round :: "sha_state \<Rightarrow> u32 \<times> u32 \<Rightarrow> sha_state" where
  "sha_round (a, b, c, d, e, f, g, h) (k, w) =
     (let t1 = h + big_sigma1 e + Ch e f g + k + w;
          t2 = big_sigma0 a + Maj a b c
      in (t1 + t2, a, b, c, d + t1, e, f, g))"

fun sha_add :: "sha_state \<Rightarrow> sha_state \<Rightarrow> sha_state" where
  "sha_add (a, b, c, d, e, f, g, h) (a', b', c', d', e', f', g', h') =
     (a + a', b + b', c + c', d + d', e + e', f + f', g + g', h + h')"

definition compress :: "sha_state \<Rightarrow> byte list \<Rightarrow> sha_state" where
  "compress s b = sha_add s (foldl sha_round s (zip sha256_K (schedule 48 (block_words b))))"

definition Sum224 :: "byte list \<Rightarrow> byte list" where
  "Sum224 data =
     (case foldl compress sha224_init (blocks (sha_pad data)) of
        (a, b, c, d, e, f, g, h) \<Rightarrow>
          be32 a @ be32 b @ be32 c @ be32 d @ be32 e @ be32 f @ be32 g)"

text \<open>\<^verbatim>\<open>hex.EncodeToString\<close>: two digits of the table for every byte, the high half first.\<close>

definition hextable :: string where
  "hextable = ''0123456789abcdef''"

definition EncodeToString :: "byte list \<Rightarrow> string" where
  "EncodeToString src =
     concat (map (\<lambda>v. [hextable ! unat (drop_bit 4 v), hextable ! unat (v AND 0x0f)]) src)"

text \<open>\<^verbatim>\<open>computeHash\<close>; \<^verbatim>\<open>[]byte(target)\<close> is the string's bytes.\<close>

definition computeHash :: "string \<Rightarrow> string" where
  "computeHash target = ToLower (EncodeToString (Sum224 (map of_char target)))"

text \<open>The format that the specification gives the digest: 56 lower-case hexadecimal digits.\<close>

definition is_lower_hex :: "char \<Rightarrow> bool" where
  "is_lower_hex c = (c \<in> set ''0123456789abcdef'')"

definition is_hex_digest :: "string \<Rightarrow> bool" where
  "is_hex_digest s = (length s = 56 \<and> list_all is_lower_hex s)"

section \<open>The canonical hash of a value\<close>

subsection \<open>Values, documents and decoded values\<close>

text \<open>
  The argument of \<^verbatim>\<open>HashObject\<close> is any Go value. The model has \<^verbatim>\<open>nil\<close>, booleans,
  numbers (of a type \<open>'n\<close>, the finite values of \<^verbatim>\<open>float64\<close>), strings, slices, maps with
  string keys, and \<open>GoChan\<close> for a value that \<^verbatim>\<open>encoding/json\<close> does not encode, such as
  a channel or a function. A map is the list of its entries in the order in which the
  runtime iterates over it; Go leaves that order open, and the keys of a map are distinct.
\<close>

datatype 'n go_value =
    GoNil
  | GoBool bool
  | GoNumber 'n
  | GoString string
  | GoSlice "'n go_value list"
  | GoMap "(string \<times> 'n go_value) list"
  | GoChan



text \<open>
  The bytes that \<^verbatim>\<open>json.Marshal\<close> returns are a JSON text, modelled by its syntax tree;
  the members of an object are in the order of the text.
\<close>

datatype 'n json =
    JNull
  | JBool bool
  | JNumber 'n
  | JString string
  | JArray "'n json list"
  | JObject "(string \<times> 'n json) list"

text \<open>
  What \<^verbatim>\<open>json.Unmarshal\<close> stores into an \<^verbatim>\<open>interface{}\<close>: \<^verbatim>\<open>nil\<close>, \<^verbatim>\<open>bool\<close>,
  \<^verbatim>\<open>float64\<close>, \<^verbatim>\<open>string\<close>, \<^verbatim>\<open>[]interface{}\<close> and \<^verbatim>\<open>map[string]interface{}\<close>, the map
  again as its entries in the order of iteration.
\<close>

datatype 'n generic =
    INil
  | IBool bool
  | IFloat64 'n
  | IString string
  | ISlice "'n generic list"
  | IMap "(string \<times> 'n generic) list"

datatype codec_error = UnsupportedType | UnexpectedEndOfInput | ExceededMaxDepth | YamlError

subsection \<open>Sorting the entries of a map by key\<close>

text \<open>
  Both encoders sort the keys of a map before they write its entries. Up to twelve entries
  Go's \<^verbatim>\<open>sort\<close> is the insertion sort below: every entry in turn moves to the left while it
  is less than its left neighbour. \<open>move_left\<close> works on the entries sorted so far, the
  last one first. (For more entries Go uses another comparison sort; it returns the same
  list whenever the comparison orders the keys linearly.)
\<close>

fun move_left ::
  "(string \<Rightarrow> string \<Rightarrow> bool) \<Rightarrow> string \<times> 'a \<Rightarrow> (string \<times> 'a) list \<Rightarrow> (string \<times> 'a) list" where
  "move_left lt x [] = [x]"
| "move_left lt x (y # ys) =
     (if lt (fst x) (fst y) then y # move_left lt x ys else x # y # ys)"

definition sort_entries ::
  "(string \<Rightarrow> string \<Rightarrow> bool) \<Rightarrow> (string \<times> 'a) list \<Rightarrow> (string \<times> 'a) list" where
  "sort_entries lt kvs = rev (foldl (\<lambda>p x. move_left lt x p) [] kvs)"

subsection \<open>Strings in a JSON text\<close>

text \<open>
  \<^verbatim>\<open>json.Marshal\<close> writes a string as UTF-8: a byte that does not begin a valid UTF-8
  sequence is written as the replacement character U+FFFD, and \<^verbatim>\<open>json.Unmarshal\<close> reads
  that character back. \<open>rune_size\<close> is the length of the valid sequence at the head
  of a string, 0 when there is none; the argument of \<open>utf8_from\<close> counts the bytes
  still to copy from the current sequence.
\<close>

definition is_cont :: "char \<Rightarrow> bool" where
  "is_cont c = (128 \<le> (of_char c :: nat) \<and> (of_char c :: nat) \<le> 191)"

definition second_ok :: "nat \<Rightarrow> char \<Rightarrow> bool" where
  "second_ok b c =
     (let lo = (if b = 224 then 160 else if b = 240 then 144 else 128);
          hi = (if b = 237 then 159 else if b = 244 then 143 else 191)
      in lo \<le> (of_char c :: nat) \<and> (of_char c :: nat) \<le> hi)"

fun rune_size :: "string \<Rightarrow> nat" where
  "rune_size [] = 0"
| "rune_size (c # cs) =
     (let b = (of_char c :: nat)
      in if b < 128 then 1
         else if 194 \<le> b \<and> b \<le> 223 then
           (case cs of c1 # _ \<Rightarrow> if is_cont c1 then 2 else 0 | _ \<Rightarrow> 0)
         else if 224 \<le> b \<and> b \<le> 239 then
           (case cs of
              c1 # c2 # _ \<Rightarrow> if second_ok b c1 \<and> is_cont c2 then 3 else 0
            | _ \<Rightarrow> 0)
         else if 240 \<le> b \<and> b \<le> 244 then
           (case cs of
              c1 # c2 # c3 # _ \<Rightarrow>
                if second_ok b c1 \<and> is_cont c2 \<and> is_cont c3 then 4 else 0
            | _ \<Rightarrow> 0)
         else 0)"

definition replacement_char :: string where
  "replacement_char = [char_of (239 :: nat), char_of (191 :: nat), char_of (189 :: nat)]"

fun utf8_from :: "nat \<Rightarrow> string \<Rightarrow> string" where
  "utf8_from k [] = []"
| "utf8_from (Suc k) (c # cs) = c # utf8_from k cs"
| "utf8_from 0 (c # cs) =
     (if rune_size (c # cs) = 0 then replacement_char @ utf8_from 0 cs
      else c # utf8_from (rune_size (c # cs) - 1) cs)"

definition utf8_coerce :: "string \<Rightarrow> string" where
  "utf8_coerce s = utf8_from 0 s"

subsection \<open>\<^verbatim>\<open>encoding/json\<close>\<close>

text \<open>
  \<^verbatim>\<open>json.Marshal\<close> sorts the entries of a map by key, strings compared byte by byte,
  and then writes keys and strings as UTF-8. It fails on a value it does not support
  anywhere in its argument; it then returns no bytes and an error.
\<close>

fun json_encode :: "'n go_value \<Rightarrow> 'n json option" where
  "json_encode GoNil = Some JNull"
| "json_encode (GoBool b) = Some (JBool b)"
| "json_encode (GoNumber n) = Some (JNumber n)"
| "json_encode (GoString s) = Some (JString (utf8_coerce s))"
| "json_encode (GoSlice xs) = map_option JArray (those (map json_encode xs))"
| "json_encode (GoMap kvs) =
     map_option (\<lambda>ms. JObject (map (\<lambda>(k, d). (utf8_coerce k, d)) (sort_entries (<) ms)))
       (those (map (\<lambda>(k, v). map_option (Pair k) (json_encode v)) kvs))"
| "json_encode GoChan = None"

definition json_Marshal :: "'n go_value \<Rightarrow> 'n json option \<times> codec_error option" where
  "json_Marshal v =
     (case json_encode v of
        None \<Rightarrow> (None, Some UnsupportedType)
      | Some d \<Rightarrow> (Some d, None))"

text \<open>
  \<^verbatim>\<open>json.Unmarshal\<close> into an \<^verbatim>\<open>interface{}\<close>. An object becomes a map: its members are
  assigned in the order of the text, a later member replacing an earlier one with the same
  key. The order in which the new map is later iterated is the runtime's choice,
  \<open>iter\<close>. On no input, and on a text it refuses, it returns an error and stores
  nothing, so the target stays \<^verbatim>\<open>nil\<close>.
\<close>

type_synonym 'n map_order = "(string \<times> 'n generic) list \<Rightarrow> (string \<times> 'n generic) list"

fun assign :: "string \<times> 'a \<Rightarrow> (string \<times> 'a) list \<Rightarrow> (string \<times> 'a) list" where
  "assign x [] = [x]"
| "assign x (y # ys) = (if fst x = fst y then x # ys else y # assign x ys)"

fun json_decode :: "'n map_order \<Rightarrow> 'n json \<Rightarrow> 'n generic" where
  "json_decode iter JNull = INil"
| "json_decode iter (JBool b) = IBool b"
| "json_decode iter (JNumber n) = IFloat64 n"
| "json_decode iter (JString s) = IString s"
| "json_decode iter (JArray xs) = ISlice (map (json_decode iter) xs)"
| "json_decode iter (JObject ms) =
     IMap (iter (foldl (\<lambda>m x. assign x m) [] (map (\<lambda>(k, v). (k, json_decode iter v)) ms)))"

text \<open>The scanner of \<^verbatim>\<open>encoding/json\<close> refuses a text nested deeper than 10000 levels.\<close>

fun json_depth :: "'n json \<Rightarrow> nat" where
  "json_depth (JArray xs) = Suc (fold max (map json_depth xs) 0)"
| "json_depth (JObject ms) = Suc (fold max (map (\<lambda>(k, v). json_depth v) ms) 0)"
| "json_depth _ = 0"

definition json_Unmarshal ::
  "'n map_order \<Rightarrow> 'n json option \<Rightarrow> 'n generic \<times> codec_error option" where
  "json_Unmarshal iter data =
     (case data of
        None \<Rightarrow> (INil, Some UnexpectedEndOfInput)
      | Some d \<Rightarrow>
          if json_depth d > 10000 then (INil, Some ExceededMaxDepth)
          else (json_decode iter d, None))"

subsection \<open>\<^verbatim>\<open>yaml.v3\<close>\<close>

text \<open>
  \<^verbatim>\<open>yaml.Marshal\<close> sorts the keys of every map with its own comparison of keys and writes
  the entries in that order. The comparison \<open>key_less\<close> and the writer \<open>emit\<close> of the
  ordered value belong to the library and are parameters; \<open>emit\<close> answers \<open>None\<close> when the
  library reports an error, and \<^verbatim>\<open>yaml.Marshal\<close> then returns no bytes.
\<close>

record 'n yaml =
  key_less :: "string \<Rightarrow> string \<Rightarrow> bool"
  emit :: "'n generic \<Rightarrow> string option"

fun yaml_order :: "(string \<Rightarrow> string \<Rightarrow> bool) \<Rightarrow> 'n generic \<Rightarrow> 'n generic" where
  "yaml_order lt (ISlice xs) = ISlice (map (yaml_order lt) xs)"
| "yaml_order lt (IMap kvs) =
     IMap (sort_entries lt (map (\<lambda>(k, v). (k, yaml_order lt v)) kvs))"
| "yaml_order lt v = v"

definition yaml_Marshal :: "'n yaml \<Rightarrow> 'n generic \<Rightarrow> string \<times> codec_error option" where
  "yaml_Marshal y v =
     (case emit y (yaml_order (key_less y) v) of
        None \<Rightarrow> ([], Some YamlError)
      | Some bs \<Rightarrow> (bs, None))"

subsection \<open>\<^verbatim>\<open>PrettyYaml\<close> and \<^verbatim>\<open>HashObject\<close>\<close>

text \<open>
  Both functions log an error and go on; the log is not part of what they return.
  \<^verbatim>\<open>HashObject\<close> drops the error of \<^verbatim>\<open>json.Marshal\<close>.
\<close>

definition PrettyYaml :: "'n yaml \<Rightarrow> 'n generic \<Rightarrow> string" where
  "PrettyYaml y obj = (case yaml_Marshal y obj of (bs, err) \<Rightarrow> bs)"

definition HashObject :: "'n map_order \<Rightarrow> 'n yaml \<Rightarrow> 'n go_value \<Rightarrow> string" where
  "HashObject iter y obj =
     (case json_Marshal obj of
        (data, _) \<Rightarrow>
          (case json_Unmarshal iter data of
             (a, err) \<Rightarrow> computeHash (PrettyYaml y a)))"


subsection \<open>The comparison of keys in \<^verbatim>\<open>yaml.v3\<close>\<close>

text \<open>
  \<^verbatim>\<open>keyList.Less\<close> of \<^verbatim>\<open>yaml.v3\<close> on two string keys, for keys of ASCII characters
  (the library compares runes and asks Unicode for letters and digits). It walks to the
  first position where the keys differ. Two letters compare as characters; a letter
  against another character is decided by whether the position follows a digit; otherwise
  the runs of digits that start there are read as numbers, into an \<^verbatim>\<open>int64\<close> that wraps
  around, and compared by value, then by length, then the two characters themselves. A
  key that is a proper prefix of the other is less. \<open>p\<close> is the common prefix read so
  far, its last character first.
\<close>

definition is_letter :: "char \<Rightarrow> bool" where
  "is_letter c =
     ((CHR ''A'' \<le> c \<and> c \<le> CHR ''Z'') \<or> (CHR ''a'' \<le> c \<and> c \<le> CHR ''z''))"

definition wrap64 :: "int \<Rightarrow> int" where
  "wrap64 x = (x + 2 ^ 63) mod 2 ^ 64 - 2 ^ 63"

fun digit_run :: "int \<Rightarrow> string \<Rightarrow> int" where
  "digit_run n [] = n"
| "digit_run n (c # cs) =
     (if is_digit c then digit_run (wrap64 (n * 10 + int (digit_value c))) cs else n)"

fun nonzero_before :: "string \<Rightarrow> bool" where
  "nonzero_before [] = False"
| "nonzero_before (c # p) =
     (if is_digit c then (if c \<noteq> CHR ''0'' then True else nonzero_before p) else False)"

fun yaml3_less_from :: "string \<Rightarrow> string \<Rightarrow> string \<Rightarrow> bool" where
  "yaml3_less_from p [] bs = (bs \<noteq> [])"
| "yaml3_less_from p (a # as) [] = False"
| "yaml3_less_from p (a # as) (b # bs) =
     (if a = b then yaml3_less_from (a # p) as bs
      else
        let al = is_letter a; bl = is_letter b;
            digits = (case p of [] \<Rightarrow> False | c # _ \<Rightarrow> is_digit c)
        in if al \<and> bl then a < b
           else if al \<or> bl then (if digits then al else bl)
           else
             let start = (if (a = CHR ''0'' \<or> b = CHR ''0'') \<and> nonzero_before p then 1 else 0);
                 an = digit_run start (a # as);
                 bn = digit_run start (b # bs);
                 ai = length (takeWhile is_digit (a # as));
                 bi = length (takeWhile is_digit (b # bs))
             in if an \<noteq> bn then an < bn
                else if ai \<noteq> bi then ai < bi
                else a < b)"

definition yaml3_less :: "string \<Rightarrow> string \<Rightarrow> bool" where
  "yaml3_less a b = yaml3_less_from [] a b"

subsection \<open>The writer of \<^verbatim>\<open>yaml.v3\<close> on simple values\<close>

text \<open>
  The text that \<^verbatim>\<open>yaml.v3\<close> writes for \<^verbatim>\<open>nil\<close>, a boolean, a whole number below
  \<open>10\<^sup>6\<close>, the empty map, and a map from plain keys to such scalars: one line
  \<^verbatim>\<open>key: value\<close> for every entry. A plain key is a word of lower-case letters and digits
  that begins with a letter, is no longer than 128 characters and is not one of the words
  that YAML reads as a boolean or as null; such a key is written without quotes. Numbers
  are of type \<^typ>\<open>nat\<close> here. For every other value the text is left to the parameter
  \<open>rest\<close>.
\<close>

definition plain_key :: "string \<Rightarrow> bool" where
  "plain_key k =
     (k \<noteq> [] \<and> length k \<le> 128 \<and> CHR ''a'' \<le> hd k \<and> hd k \<le> CHR ''z'' \<and>
      list_all (\<lambda>c. (CHR ''a'' \<le> c \<and> c \<le> CHR ''z'') \<or> is_digit c) k \<and>
      k \<notin> set [''null'', ''true'', ''false'', ''y'', ''n'', ''yes'', ''no'', ''on'', ''off''])"

fun yaml3_scalar :: "nat generic \<Rightarrow> string option" where
  "yaml3_scalar INil = Some ''null''"
| "yaml3_scalar (IBool b) = Some (if b then ''true'' else ''false'')"
| "yaml3_scalar (IFloat64 n) = (if n < 1000000 then Some (nat_digits n) else None)"
| "yaml3_scalar _ = None"

definition yaml3_line :: "string \<times> nat generic \<Rightarrow> string option" where
  "yaml3_line e =
     (case yaml3_scalar (snd e) of
        None \<Rightarrow> None
      | Some t \<Rightarrow> if plain_key (fst e) then Some (fst e @ '': '' @ t @ ''\<newline>'') else None)"

definition yaml3_emit :: "(nat generic \<Rightarrow> string option) \<Rightarrow> nat generic \<Rightarrow> string option" where
  "yaml3_emit rest v =
     (case v of
        IMap [] \<Rightarrow> Some ''{}\<newline>''
      | IMap kvs \<Rightarrow>
          (case those (map yaml3_line kvs) of
             None \<Rightarrow> rest v
           | Some ls \<Rightarrow> Some (concat ls))
      | _ \<Rightarrow>
          (case yaml3_scalar v of
             None \<Rightarrow> rest v
           | Some t \<Rightarrow> Some (t @ ''\<newline>'')))"

text \<open>The encoder with the library's comparison of keys and a writer \<open>e\<close>.\<close>

definition yaml_v3 :: "('n generic \<Rightarrow> string option) \<Rightarrow> 'n yaml" where
  "yaml_v3 e = \<lparr>key_less = yaml3_less, emit = e\<rparr>"

subsection \<open>Conditions on the runtime and on the keys of a value\<close>


definition linear_on :: "(string \<Rightarrow> string \<Rightarrow> bool) \<Rightarrow> string set \<Rightarrow> bool" where
  "linear_on lt S =
     ((\<forall>a \<in> S. \<not> lt a a) \<and>
      (\<forall>a \<in> S. \<forall>b \<in> S. \<forall>c \<in> S. lt a b \<longrightarrow> lt b c \<longrightarrow> lt a c) \<and>
      (\<forall>a \<in> S. \<forall>b \<in> S. a \<noteq> b \<longrightarrow> lt a b \<or> lt b a))"





section \<open>Inputs for the worked examples\<close>

text \<open>
  A stand-in for \<^verbatim>\<open>net.ParseIP\<close> that knows three literals, the API constants with
  sample values, a node with given labels and addresses, and a client that holds one
  configuration map.
\<close>

definition example_ParseIP :: "string \<Rightarrow> nat list option" where
  "example_ParseIP s =
     (if s = ''203.0.113.9'' then Some [203, 0, 113, 9]
      else if s = ''10.0.0.7'' then Some [10, 0, 0, 7]
      else if s = ''192.168.1.5'' then Some [192, 168, 1, 5]
      else None)"

definition example_api :: raven_api where
  "example_api =
     \<lparr>LabelNodeProviderPublicIP = ''raven.openyurt.io/public-ip'',
      LabelEndpointCandidate = ''raven.openyurt.io/endpoint-candidate'',
      Tunnel = ''tunnel'', DefaultTunnelServerExposedPort = 4500\<rparr>"

definition example_node :: "(string \<rightharpoonup> string) \<Rightarrow> NodeAddress list \<Rightarrow> Node" where
  "example_node ls as =
     \<lparr>Name = ''edge-1'', Labels = ls, CreationTimestamp = 1700000000,
      Status = \<lparr>Addresses = as\<rparr>\<rparr>"

definition example_client :: "(string \<rightharpoonup> string) \<Rightarrow> unit Client" where
  "example_client d =
     (\<lambda>key. if key = (''kube-system'', ''raven-cfg'') then Inr \<lparr>Data = d\<rparr> else Inl ())"

text \<open>
  The encoder of \<^verbatim>\<open>yaml.v3\<close> with the writer for simple values and nothing else, numbers
  of type \<^typ>\<open>nat\<close>.
\<close>

definition example_yaml3 :: "nat yaml" where
  "example_yaml3 = yaml_v3 (yaml3_emit (\<lambda>v. None))"

text \<open>The example of the specification: \<^verbatim>\<open>{"a":1,"b":2}\<close> and \<^verbatim>\<open>{"b":2,"a":1}\<close>.\<close>

definition example_a1b2 :: "nat go_value" where
  "example_a1b2 = GoMap [(''a'', GoNumber 1), (''b'', GoNumber 2)]"








section \<open>Properties of the helper functions\<close>

subsection \<open>Evaluation of the library functions\<close>

lemma nat_digits_small: "n < 10 \<Longrightarrow> nat_digits n = [char_of (48 + n)]"
  by (simp add: nat_digits.simps)

lemma nat_digits_large:
  "\<not> n < 10 \<Longrightarrow> nat_digits n = nat_digits (n div 10) @ [char_of (48 + n mod 10)]"
  by (subst nat_digits.simps) simp

lemma Sprintf_d_examples:
  "Sprintf_d 1700000000 = ''1700000000''" "Sprintf_d (- 42) = ''-42''" "Sprintf_d 0 = ''0''"
  by (simp_all add: Sprintf_d_def nat_digits_small nat_digits_large char_of_def bit_Suc_0_iff)

lemma ToLower_examples:
  "ToLower ''TRUE'' = ''true''" "ToLower ''True'' = ''true''" "ToLower ''true'' = ''true''"
  "ToLower ''FALSE'' = ''false''" "ToLower ''false'' = ''false''"
  by (simp_all add: ToLower_def lower_def char_of_def bit_Suc_0_iff)

subsection \<open>The internal address of a node\<close>

lemma GetNodeInternalIP_loop_find:
  "GetNodeInternalIP_loop ParseIP addrs ip =
     (case find (is_valid_internal ParseIP) addrs of None \<Rightarrow> ip | Some a \<Rightarrow> Address a)"
  by (induction addrs) (auto simp add: is_valid_internal_def)

text \<open>
  Claim C5. \<open>GetNodeInternalIP\<close> returns the address of the first entry of the node's
  address list whose type is the internal-IP type and whose address parses as an IP
  literal: the entry at an index \<open>i\<close> that is such an entry while no entry before it is.
  When the list has no such entry the result is the empty string.
\<close>

theorem GetNodeInternalIP_first_valid_internal:
  "(\<forall>i < length (Addresses (Status node)).
      is_valid_internal ParseIP (Addresses (Status node) ! i) \<and>
      (\<forall>j < i. \<not> is_valid_internal ParseIP (Addresses (Status node) ! j))
      \<longrightarrow> GetNodeInternalIP ParseIP node = Address (Addresses (Status node) ! i))
   \<and> ((\<forall>a \<in> set (Addresses (Status node)). \<not> is_valid_internal ParseIP a)
      \<longrightarrow> GetNodeInternalIP ParseIP node = [])"
proof -
  let ?xs = "Addresses (Status node)"
  let ?ok = "is_valid_internal ParseIP"
  have "GetNodeInternalIP ParseIP node =
      (case find ?ok ?xs of None \<Rightarrow> [] | Some a \<Rightarrow> Address a)"
    unfolding GetNodeInternalIP_def by (rule GetNodeInternalIP_loop_find)
  moreover have "find ?ok ?xs = Some (?xs ! i)"
    if "i < length ?xs" "?ok (?xs ! i)" "\<forall>j < i. \<not> ?ok (?xs ! j)" for i
    using that by (auto simp add: find_Some_iff)
  moreover have "find ?ok ?xs = None" if "\<forall>a \<in> set ?xs. \<not> ?ok a"
    using that by (simp add: find_None_iff)
  ultimately show ?thesis by auto
qed

theorem GetNodeInternalIP_first_valid_internal_witness:
  "GetNodeInternalIP example_ParseIP
     (example_node Map.empty
        [\<lparr>NodeAddress.Type = ''Hostname'', Address = ''edge-1''\<rparr>,
         \<lparr>NodeAddress.Type = ''InternalIP'', Address = ''not-an-ip''\<rparr>,
         \<lparr>NodeAddress.Type = ''ExternalIP'', Address = ''203.0.113.9''\<rparr>,
         \<lparr>NodeAddress.Type = ''InternalIP'', Address = ''10.0.0.7''\<rparr>,
         \<lparr>NodeAddress.Type = ''InternalIP'', Address = ''192.168.1.5''\<rparr>]) = ''10.0.0.7''
   \<and> GetNodeInternalIP example_ParseIP
     (example_node Map.empty
        [\<lparr>NodeAddress.Type = ''Hostname'', Address = ''edge-1''\<rparr>,
         \<lparr>NodeAddress.Type = ''InternalIP'', Address = ''not-an-ip''\<rparr>,
         \<lparr>NodeAddress.Type = ''ExternalIP'', Address = ''203.0.113.9''\<rparr>]) = []"
proof -
  let ?n1 = "example_node Map.empty
        [\<lparr>NodeAddress.Type = ''Hostname'', Address = ''edge-1''\<rparr>,
         \<lparr>NodeAddress.Type = ''InternalIP'', Address = ''not-an-ip''\<rparr>,
         \<lparr>NodeAddress.Type = ''ExternalIP'', Address = ''203.0.113.9''\<rparr>,
         \<lparr>NodeAddress.Type = ''InternalIP'', Address = ''10.0.0.7''\<rparr>,
         \<lparr>NodeAddress.Type = ''InternalIP'', Address = ''192.168.1.5''\<rparr>]"
  let ?n2 = "example_node Map.empty
        [\<lparr>NodeAddress.Type = ''Hostname'', Address = ''edge-1''\<rparr>,
         \<lparr>NodeAddress.Type = ''InternalIP'', Address = ''not-an-ip''\<rparr>,
         \<lparr>NodeAddress.Type = ''ExternalIP'', Address = ''203.0.113.9''\<rparr>]"
  have len: "(3::nat) < length (Addresses (Status ?n1))"
    by (simp add: example_node_def)
  have before: "\<forall>j < (3::nat). \<not> is_valid_internal example_ParseIP (Addresses (Status ?n1) ! j)"
    by (simp add: example_node_def is_valid_internal_def NodeInternalIP_def example_ParseIP_def
        numeral_3_eq_3 less_Suc_eq)
  have at: "is_valid_internal example_ParseIP (Addresses (Status ?n1) ! 3)"
    by (simp add: example_node_def is_valid_internal_def NodeInternalIP_def example_ParseIP_def)
  have none: "\<forall>a \<in> set (Addresses (Status ?n2)). \<not> is_valid_internal example_ParseIP a"
    by (simp add: example_node_def is_valid_internal_def NodeInternalIP_def example_ParseIP_def)
  from GetNodeInternalIP_first_valid_internal [of ?n1 example_ParseIP] len before at
  have "GetNodeInternalIP example_ParseIP ?n1 = Address (Addresses (Status ?n1) ! 3)"
    by blast
  moreover from GetNodeInternalIP_first_valid_internal [of ?n2 example_ParseIP] none
  have "GetNodeInternalIP example_ParseIP ?n2 = []"
    by blast
  ultimately show ?thesis by (simp add: example_node_def)
qed

subsection \<open>The public address of an edge node\<close>

text \<open>
  Claim C6. \<open>GetEdgeNodePublicIP\<close> returns an error with the empty string exactly when
  the public-IP label is absent (the missing-label error) or is present with a value that
  does not parse as an IP literal (the invalid-format error); otherwise it returns the
  label's value and no error.
\<close>

theorem GetEdgeNodePublicIP_result:
  "(Labels node (LabelNodeProviderPublicIP api) = None \<longrightarrow>
      GetEdgeNodePublicIP ParseIP api node =
        ([], Some (NoPublicIPLabel (LabelNodeProviderPublicIP api) (Name node))))
   \<and> (\<forall>ip. Labels node (LabelNodeProviderPublicIP api) = Some ip \<and> ParseIP ip = None \<longrightarrow>
      GetEdgeNodePublicIP ParseIP api node =
        ([], Some (InvalidPublicIPLabel (LabelNodeProviderPublicIP api) ip (Name node))))
   \<and> (\<forall>ip. Labels node (LabelNodeProviderPublicIP api) = Some ip \<and> ParseIP ip \<noteq> None \<longrightarrow>
      GetEdgeNodePublicIP ParseIP api node = (ip, None))
   \<and> (snd (GetEdgeNodePublicIP ParseIP api node) \<noteq> None \<longleftrightarrow>
        (case Labels node (LabelNodeProviderPublicIP api) of
           None \<Rightarrow> True
         | Some ip \<Rightarrow> ParseIP ip = None))"
  by (auto simp add: GetEdgeNodePublicIP_def split: option.splits)

theorem GetEdgeNodePublicIP_result_witness:
  "GetEdgeNodePublicIP example_ParseIP example_api (example_node Map.empty []) =
     ([], Some (NoPublicIPLabel ''raven.openyurt.io/public-ip'' ''edge-1''))
   \<and> GetEdgeNodePublicIP example_ParseIP example_api
       (example_node [''raven.openyurt.io/public-ip'' \<mapsto> ''1.2.3''] []) =
     ([], Some (InvalidPublicIPLabel ''raven.openyurt.io/public-ip'' ''1.2.3'' ''edge-1''))
   \<and> GetEdgeNodePublicIP example_ParseIP example_api
       (example_node [''raven.openyurt.io/public-ip'' \<mapsto> ''203.0.113.9''] []) =
     (''203.0.113.9'', None)"
  using
    GetEdgeNodePublicIP_result [of "example_node Map.empty []" example_api example_ParseIP]
    GetEdgeNodePublicIP_result
      [of "example_node [''raven.openyurt.io/public-ip'' \<mapsto> ''1.2.3''] []"
        example_api example_ParseIP]
    GetEdgeNodePublicIP_result
      [of "example_node [''raven.openyurt.io/public-ip'' \<mapsto> ''203.0.113.9''] []"
        example_api example_ParseIP]
  by (simp add: example_node_def example_api_def example_ParseIP_def)

subsection \<open>Endpoint candidates\<close>

text \<open>
  Claim C10. \<open>TryCreateActiveEndpointCandidate\<close> returns an error, and no endpoint,
  exactly when the endpoint-candidate label is absent or the public-IP lookup fails. The
  value of the candidate label is not inspected: another value under that label leaves the
  endpoint the same, and a node labelled \<open>false\<close> succeeds, while
  \<open>IsNodeEndpointCandidate\<close> holds only for the value \<open>true\<close>. On success the endpoint
  has the node's name, the public IP of the label, \<open>UnderNAT\<close> false, the type
  \<open>Tunnel\<close>, the default exposed port of the tunnel server, and a configuration that maps
  the creation-time key to the node's creation time in decimal.
\<close>

theorem TryCreateActiveEndpointCandidate_contract:
  "(snd (TryCreateActiveEndpointCandidate ParseIP api node) \<noteq> None \<longleftrightarrow>
      Labels node (LabelEndpointCandidate api) = None \<or>
      snd (GetEdgeNodePublicIP ParseIP api node) \<noteq> None)
   \<and> (snd (TryCreateActiveEndpointCandidate ParseIP api node) \<noteq> None \<longrightarrow>
      fst (TryCreateActiveEndpointCandidate ParseIP api node) = None)
   \<and> (snd (TryCreateActiveEndpointCandidate ParseIP api node) = None \<longrightarrow>
      (\<exists>ip. Labels node (LabelNodeProviderPublicIP api) = Some ip \<and>
        fst (TryCreateActiveEndpointCandidate ParseIP api node) =
          Some \<lparr>NodeName = Name node, PublicIP = ip, UnderNAT = False, Type = Tunnel api,
                Port = DefaultTunnelServerExposedPort api,
                Config = [ConfigCreationTimestampKey \<mapsto> Sprintf_d (CreationTimestamp node)]\<rparr>))
   \<and> (\<forall>v. LabelEndpointCandidate api \<noteq> LabelNodeProviderPublicIP api \<and>
          Labels node (LabelEndpointCandidate api) \<noteq> None \<longrightarrow>
        fst (TryCreateActiveEndpointCandidate ParseIP api
               (node\<lparr>Labels := (Labels node)(LabelEndpointCandidate api \<mapsto> v)\<rparr>)) =
        fst (TryCreateActiveEndpointCandidate ParseIP api node))
   \<and> (IsNodeEndpointCandidate api node \<longleftrightarrow>
        Labels node (LabelEndpointCandidate api) = Some ''true'')"
  by (auto simp add: TryCreateActiveEndpointCandidate_def GetEdgeNodePublicIP_def
      IsNodeEndpointCandidate_def Let_def split: option.splits)

theorem TryCreateActiveEndpointCandidate_contract_witness:
  "TryCreateActiveEndpointCandidate example_ParseIP example_api
     (example_node [''raven.openyurt.io/endpoint-candidate'' \<mapsto> ''false'',
                    ''raven.openyurt.io/public-ip'' \<mapsto> ''203.0.113.9''] []) =
     (Some \<lparr>NodeName = ''edge-1'', PublicIP = ''203.0.113.9'', UnderNAT = False,
            Type = ''tunnel'', Port = 4500,
            Config = [''config-creation-time'' \<mapsto> ''1700000000'']\<rparr>, None)
   \<and> \<not> IsNodeEndpointCandidate example_api
     (example_node [''raven.openyurt.io/endpoint-candidate'' \<mapsto> ''false'',
                    ''raven.openyurt.io/public-ip'' \<mapsto> ''203.0.113.9''] [])"
  using TryCreateActiveEndpointCandidate_contract [of example_ParseIP example_api
     "example_node [''raven.openyurt.io/endpoint-candidate'' \<mapsto> ''false'',
                    ''raven.openyurt.io/public-ip'' \<mapsto> ''203.0.113.9''] []"]
  by (auto simp add: example_node_def example_api_def example_ParseIP_def
      ConfigCreationTimestampKey_def Sprintf_d_examples GetEdgeNodePublicIP_def prod_eq_iff)

subsection \<open>The feature flags\<close>

text \<open>
  The proxy flag is what the specification says of a flag: disabled when the configuration
  map or its key is absent, and otherwise the match of the value, in lower case, with
  \<open>true\<close>.
\<close>

lemma CheckServer_enableProxy:
  "fst (CheckServer client) =
     (case client (WorkingNamespace, RavenGlobalConfig) of
        Inl err \<Rightarrow> False
      | Inr cm \<Rightarrow>
          (case Data cm RavenEnableProxy of
             None \<Rightarrow> False
           | Some val \<Rightarrow> ToLower val = ''true''))"
  by (simp add: CheckServer_def DefaultEnableL7Proxy_def Let_def split: sum.splits option.splits)

text \<open>
  Claim C8, at the input where the code leaves it. With the tunnel key present and set to
  \<open>false\<close>, \<open>CheckServer\<close> still answers that the tunnel is enabled: the value is matched
  with \<open>true\<close>, but a failed match assigns nothing and the default stays.
\<close>

theorem CheckServer_tunnel_false_ignored:
  "CheckServer (example_client [''enable-l3-tunnel'' \<mapsto> ''false'']) = (False, True)"
  by (simp add: CheckServer_def example_client_def WorkingNamespace_def RavenGlobalConfig_def
      RavenEnableProxy_def RavenEnableTunnel_def DefaultEnableL3Tunnel_def
      DefaultEnableL7Proxy_def ToLower_examples)

text \<open>
  Claim C9. Whatever the client answers (an error, a map without the tunnel key, or a map
  with the key and any value), the second result of \<open>CheckServer\<close>, \<open>enableTunnel\<close>,
  is true.
\<close>

theorem CheckServer_enableTunnel_always: "snd (CheckServer client) = True"
  by (simp add: CheckServer_def DefaultEnableL3Tunnel_def Let_def
      split: sum.splits option.splits)

theorem CheckServer_enableTunnel_always_witness:
  "snd (CheckServer (example_client [''enable-l3-tunnel'' \<mapsto> ''FALSE''])) \<and>
   snd (CheckServer (example_client Map.empty)) \<and>
   snd (CheckServer (\<lambda>key. Inl ()))"
  using CheckServer_enableTunnel_always [of "example_client [''enable-l3-tunnel'' \<mapsto> ''FALSE'']"]
    CheckServer_enableTunnel_always [of "example_client Map.empty"]
    CheckServer_enableTunnel_always [of "\<lambda>key. Inl ()"]
  by simp

subsection \<open>Ports\<close>

lemma decimal_from_mono: "n \<le> decimal_from n cs"
proof (induction cs arbitrary: n)
  case Nil
  show ?case by simp
next
  case (Cons c cs)
  have "n \<le> n * 10 + digit_value c" by simp
  also have "\<dots> \<le> decimal_from (n * 10 + digit_value c) cs" by (rule Cons.IH)
  finally show ?case by simp
qed

lemma ParseUint_loop_range:
  "snd (ParseUint_loop cs n) = Some ErrRange \<Longrightarrow> fst (ParseUint_loop cs n) = maxUint64"
  by (induction cs n rule: ParseUint_loop.induct) (auto simp add: Let_def split: if_splits)

lemma ParseUint_loop_ok:
  "n \<le> maxUint64 \<Longrightarrow>
   snd (ParseUint_loop cs n) = None \<longleftrightarrow>
     list_all is_digit cs \<and> decimal_from n cs \<le> maxUint64"
proof (induction cs arbitrary: n)
  case Nil
  then show ?case by simp
next
  case (Cons c cs)
  let ?n1 = "n * 10 + digit_value c"
  have mono: "?n1 \<le> decimal_from ?n1 cs" by (rule decimal_from_mono)
  show ?case
  proof (cases "is_digit c")
    case False
    then show ?thesis by (auto simp add: is_digit_def)
  next
    case dig: True
    show ?thesis
    proof (cases "n \<ge> maxUint64 div 10 + 1")
      case True
      then have "?n1 > maxUint64" by (simp add: maxUint64_def)
      with mono True dig show ?thesis by (auto simp add: is_digit_def)
    next
      case small: False
      show ?thesis
      proof (cases "?n1 > maxUint64")
        case True
        with mono small dig show ?thesis
          by (auto simp add: is_digit_def digit_value_def Let_def)
      next
        case False
        then have "?n1 \<le> maxUint64" by simp
        from Cons.IH [OF this] small dig False show ?thesis
          by (auto simp add: is_digit_def digit_value_def Let_def)
      qed
    qed
  qed
qed

lemma ParseUint_loop_value:
  "snd (ParseUint_loop cs n) = None \<Longrightarrow> fst (ParseUint_loop cs n) = decimal_from n cs"
  by (induction cs n rule: ParseUint_loop.induct)
    (auto simp add: Let_def digit_value_def split: if_splits)

lemma ParseUint_loop_err:
  "snd (ParseUint_loop cs n) \<noteq> None \<Longrightarrow>
   snd (ParseUint_loop cs n) = Some ErrSyntax \<or> fst (ParseUint_loop cs n) = maxUint64"
  using ParseUint_loop_range [of cs n]
  by (cases "snd (ParseUint_loop cs n)") (auto intro: NumError.exhaust)

lemma ParseUint_ok:
  "snd (ParseUint s) = None \<longleftrightarrow>
     s \<noteq> [] \<and> list_all is_digit s \<and> decimal_value s \<le> maxUint64"
  using ParseUint_loop_ok [of 0 s] by (simp add: ParseUint_def decimal_value_def)

lemma ParseUint_value: "snd (ParseUint s) = None \<Longrightarrow> fst (ParseUint s) = decimal_value s"
  using ParseUint_loop_value [of s 0]
  by (simp add: ParseUint_def decimal_value_def split: if_splits)

lemma ParseUint_err:
  "snd (ParseUint s) \<noteq> None \<Longrightarrow>
   snd (ParseUint s) = Some ErrSyntax \<or> fst (ParseUint s) = maxUint64"
  using ParseUint_loop_err [of s 0] by (simp add: ParseUint_def split: if_splits)

text \<open>
  \<open>ParseInt\<close> succeeds exactly on the numerals whose value fits 64 signed bits, and then
  returns that value.
\<close>

lemma ParseInt_ok:
  "snd (ParseInt s) = None \<longleftrightarrow>
     (\<exists>n. base10_integer s = Some n \<and> - (2 ^ 63) \<le> n \<and> n < 2 ^ 63)"
proof (cases "s = []")
  case True
  then show ?thesis by (simp add: ParseInt_def base10_integer_def)
next
  case ne: False
  define t where "t = (if hd s = CHR ''+'' \<or> hd s = CHR ''-'' then tl s else s)"
  obtain un err where pu: "ParseUint t = (un, err)" by (cases "ParseUint t")
  show ?thesis
  proof (cases err)
    case None
    with pu ParseUint_ok [of t] ParseUint_value [of t]
    have ok: "t \<noteq> []" "list_all is_digit t" "un = decimal_value t" by auto
    with ne pu None show ?thesis
      by (auto simp add: ParseInt_def base10_integer_def Let_def t_def [symmetric])
  next
    case (Some e)
    with pu ParseUint_ok [of t] ParseUint_err [of t]
    have bad: "\<not> (t \<noteq> [] \<and> list_all is_digit t \<and> decimal_value t \<le> maxUint64)"
      and e: "e = ErrSyntax \<or> un = maxUint64" by auto
    from ne pu Some e bad show ?thesis
      by (auto simp add: ParseInt_def base10_integer_def Let_def t_def [symmetric]
          maxUint64_def)
  qed
qed

lemma ParseInt_value:
  "snd (ParseInt s) = None \<Longrightarrow> base10_integer s = Some (fst (ParseInt s))"
proof (cases "s = []")
  case True
  assume "snd (ParseInt s) = None"
  with True show ?thesis by (simp add: ParseInt_def)
next
  case ne: False
  assume ok: "snd (ParseInt s) = None"
  define t where "t = (if hd s = CHR ''+'' \<or> hd s = CHR ''-'' then tl s else s)"
  obtain un err where pu: "ParseUint t = (un, err)" by (cases "ParseUint t")
  from ok ne pu ParseUint_err [of t] have "err = None"
    by (cases err)
      (auto simp add: ParseInt_def Let_def t_def [symmetric] maxUint64_def split: if_splits)
  with pu ParseUint_ok [of t] ParseUint_value [of t]
  have "t \<noteq> []" "list_all is_digit t" "un = decimal_value t" by auto
  with ne pu ok \<open>err = None\<close> show ?thesis
    by (auto simp add: ParseInt_def base10_integer_def Let_def t_def [symmetric]
        split: if_splits)
qed

lemma IsValidPort_examples:
  "IsValidPort ''8080''" "IsValidPort ''0''" "IsValidPort ''65535''" "IsValidPort ''+80''"
  "IsValidPort ''-0''" "IsValidPort ''00000000000000000000000080''"
  "\<not> IsValidPort []" "\<not> IsValidPort ''65536''" "\<not> IsValidPort ''-1''"
  "\<not> IsValidPort ''80a''" "\<not> IsValidPort ''99999999999999999999999999''"
  by (simp_all add: IsValidPort_def Atoi_def ParseInt_def ParseUint_def Let_def maxUint64_def)

text \<open>
  Claim C7. \<open>IsValidPort s\<close> is true if and only if \<open>s\<close> parses as a base-10 integer
  whose value is in the range from 0 to 65535.
\<close>

theorem IsValidPort_iff:
  "IsValidPort s \<longleftrightarrow> (\<exists>n. base10_integer s = Some n \<and> 0 \<le> n \<and> n \<le> 65535)"
proof
  assume v: "IsValidPort s"
  obtain port err where a: "Atoi s = (port, err)" by (cases "Atoi s")
  from v a have "err = None" "0 \<le> port" "port \<le> 65535"
    by (auto simp add: IsValidPort_def split: if_splits)
  moreover from a \<open>err = None\<close> ParseInt_value [of s] have "base10_integer s = Some port"
    by (simp add: Atoi_def)
  ultimately show "\<exists>n. base10_integer s = Some n \<and> 0 \<le> n \<and> n \<le> 65535" by blast
next
  assume "\<exists>n. base10_integer s = Some n \<and> 0 \<le> n \<and> n \<le> 65535"
  then obtain n where n: "base10_integer s = Some n" "0 \<le> n" "n \<le> 65535" by blast
  then have "\<exists>n. base10_integer s = Some n \<and> - (2 ^ 63) \<le> n \<and> n < 2 ^ 63"
    by (intro exI [of _ n]) simp
  then have ok: "snd (ParseInt s) = None" by (simp add: ParseInt_ok)
  from ParseInt_value [OF ok] n have "fst (ParseInt s) = n" by simp
  moreover from n have "s \<noteq> []" by (auto simp add: base10_integer_def)
  ultimately show "IsValidPort s" using ok n
    by (simp add: IsValidPort_def Atoi_def split_beta)
qed

theorem IsValidPort_iff_witness:
  "IsValidPort ''8080'' \<and> base10_integer ''8080'' = Some 8080
   \<and> \<not> IsValidPort ''65536'' \<and> base10_integer ''65536'' = Some 65536
   \<and> \<not> IsValidPort ''http'' \<and> base10_integer ''http'' = None"
  using IsValidPort_iff [of "''8080''"] IsValidPort_iff [of "''65536''"]
    IsValidPort_iff [of "''http''"]
  by (simp add: base10_integer_def is_digit_def decimal_value_def digit_value_def)

subsection \<open>Sorting the entries by key\<close>











subsection \<open>The format of the digest\<close>

lemma length_be32: "length (be32 w) = 4"
  by (simp add: be32_def)

lemma length_Sum224: "length (Sum224 data) = 28"
  by (simp add: Sum224_def length_be32 split: prod.splits)

lemma length_EncodeToString: "length (EncodeToString src) = 2 * length src"
  by (induction src) (simp_all add: EncodeToString_def)

lemma hextable_nth: "i < 16 \<Longrightarrow> is_lower_hex (hextable ! i)"
  unfolding is_lower_hex_def hextable_def by (rule nth_mem) simp

lemma high_nibble: "unat (drop_bit 4 (v :: byte)) < 16"
proof -
  have "unat v < 2 ^ LENGTH(8)" by (rule unsigned_less)
  then show ?thesis by (simp add: drop_bit_eq_div unat_div_distrib)
qed

lemma low_nibble: "unat ((v :: byte) AND 0x0f) < 16"
proof -
  have "v AND 0x0f \<le> 0x0f" by (rule word_and_le1)
  then have "unat (v AND 0x0f) \<le> unat (0x0f :: byte)" by (simp only: word_le_nat_alt)
  then show ?thesis by simp
qed

lemma hex_EncodeToString: "list_all is_lower_hex (EncodeToString src)"
  by (induction src) (simp_all add: EncodeToString_def hextable_nth high_nibble low_nibble)

lemma lower_hex: "is_lower_hex c \<Longrightarrow> lower c = c"
  by (auto simp add: is_lower_hex_def lower_def)

lemma ToLower_hex: "list_all is_lower_hex s \<Longrightarrow> ToLower s = s"
  by (induction s) (simp_all add: ToLower_def lower_hex)

lemma computeHash_format: "is_hex_digest (computeHash target)"
  by (simp add: computeHash_def is_hex_digest_def ToLower_hex hex_EncodeToString
      length_EncodeToString length_Sum224)

subsection \<open>Digests computed from the definitions\<close>

text \<open>
  The digests of the empty message and of \<^verbatim>\<open>abc\<close>, two test vectors of the standard,
  and of the canonical texts of the examples: the padded block, its compression, and the
  hexadecimal digits.
\<close>

lemma replicate_examples:
  "replicate 55 (0 :: byte) =
     [0, 0, 0, 0, 0, 0, 0, 0, 0, 0, 0, 0, 0, 0, 0, 0, 0, 0, 0, 0, 0, 0, 0, 0, 0, 0, 0, 0, 0,
      0, 0, 0, 0, 0, 0, 0, 0, 0, 0, 0, 0, 0, 0, 0, 0, 0, 0, 0, 0, 0, 0, 0, 0, 0, 0]"
  "replicate 52 (0 :: byte) =
     [0, 0, 0, 0, 0, 0, 0, 0, 0, 0, 0, 0, 0, 0, 0, 0, 0, 0, 0, 0, 0, 0, 0, 0, 0, 0, 0, 0, 0,
      0, 0, 0, 0, 0, 0, 0, 0, 0, 0, 0, 0, 0, 0, 0, 0, 0, 0, 0, 0, 0, 0, 0]"
  "replicate 50 (0 :: byte) =
     [0, 0, 0, 0, 0, 0, 0, 0, 0, 0, 0, 0, 0, 0, 0, 0, 0, 0, 0, 0, 0, 0, 0, 0, 0, 0, 0, 0, 0,
      0, 0, 0, 0, 0, 0, 0, 0, 0, 0, 0, 0, 0, 0, 0, 0, 0, 0, 0, 0, 0]"
  "replicate 45 (0 :: byte) =
     [0, 0, 0, 0, 0, 0, 0, 0, 0, 0, 0, 0, 0, 0, 0, 0, 0, 0, 0, 0, 0, 0, 0, 0, 0, 0, 0, 0, 0,
      0, 0, 0, 0, 0, 0, 0, 0, 0, 0, 0, 0, 0, 0, 0, 0]"
  "replicate 8 (0 :: byte) =
     [0, 0, 0, 0, 0, 0, 0, 0]"
  by (simp_all add: numeral_eq_Suc)





lemma blocks_abc:
  "blocks (sha_pad [97, 98, 99]) =
     [[97, 98, 99, 128, 0, 0, 0, 0, 0, 0, 0, 0, 0, 0, 0, 0, 0, 0, 0, 0, 0, 0, 0, 0, 0, 0, 0,
      0, 0, 0, 0, 0, 0, 0, 0, 0, 0, 0, 0, 0, 0, 0, 0, 0, 0, 0, 0, 0, 0, 0, 0, 0, 0, 0, 0, 0,
      0, 0, 0, 0, 0, 0, 0, 24]]"
  by (simp add: blocks_def sha_pad_def be64_def replicate_examples)

lemma compress_abc:
  "compress sha224_init
     [97, 98, 99, 128, 0, 0, 0, 0, 0, 0, 0, 0, 0, 0, 0, 0, 0, 0, 0, 0, 0, 0, 0, 0, 0, 0, 0,
      0, 0, 0, 0, 0, 0, 0, 0, 0, 0, 0, 0, 0, 0, 0, 0, 0, 0, 0, 0, 0, 0, 0, 0, 0, 0, 0, 0, 0,
      0, 0, 0, 0, 0, 0, 0, 24] =
     (587824418, 872798242, 2252514423, 3181532595, 716029156, 3181425655, 3815546279,
      3537504301)"
  by code_simp

lemma Sum224_abc:
  "Sum224 [97, 98, 99] =
     [35, 9, 125, 34, 52, 5, 216, 34, 134, 66, 164, 119, 189, 162, 85, 179, 42, 173, 188,
      228, 189, 160, 179, 247, 227, 108, 157, 167]"
  by (simp add: Sum224_def blocks_abc compress_abc be32_def)

lemma computeHash_abc:
  "computeHash ''abc'' =
     ''23097d223405d8228642a477bda255b32aadbce4bda0b3f7e36c9da7''"
  by (simp add: computeHash_def Sum224_abc EncodeToString_def hextable_def ToLower_def
      lower_def)





















subsection \<open>Decoding and encoding do not depend on the order of the entries\<close>










text \<open>
  A byte that is not UTF-8 becomes the replacement character, a valid sequence stays; two
  keys that are not UTF-8 become the same key of the JSON text, and decoding keeps the
  later of the two entries.
\<close>

lemma utf8_coerce_examples:
  "utf8_coerce [char_of (255 :: nat)] = replacement_char"
  "utf8_coerce [char_of (195 :: nat), char_of (169 :: nat)] =
     [char_of (195 :: nat), char_of (169 :: nat)]"
  "utf8_coerce [char_of (195 :: nat), CHR ''a''] = replacement_char @ ''a''"
  "json_encode (GoMap [([char_of (254 :: nat)], GoNil), ([char_of (255 :: nat)], GoBool True)]) =
     Some (JObject [(replacement_char, JNull), (replacement_char, JBool True) :: string \<times> nat json])"
  "json_decode (\<lambda>m. m) (JObject [(replacement_char, JNull), (replacement_char, JBool True)]) =
     IMap [(replacement_char, IBool True) :: string \<times> nat generic]"
  by code_simp+













subsection \<open>The comparison of \<^verbatim>\<open>yaml.v3\<close> on examples\<close>



lemma yaml3_less_letters:
  "list_all is_letter a \<Longrightarrow> list_all is_letter b \<Longrightarrow> yaml3_less_from p a b \<longleftrightarrow> a < b"
proof (induction p a b rule: yaml3_less_from.induct)
  case (1 p bs)
  show ?case by (cases bs) simp_all
next
  case (2 p a as)
  show ?case by simp
next
  case (3 p a as b bs)
  then show ?case by (auto simp add: Let_def)
qed

lemma linear_on_letters:
  assumes "\<forall>k \<in> S. list_all is_letter k"
  shows "linear_on yaml3_less S"
  using assms unfolding linear_on_def yaml3_less_def
  by (auto simp add: yaml3_less_letters)


subsection \<open>The canonical texts of the examples\<close>


















subsection \<open>The claims about the hash\<close>







text \<open>
  Claim C3. For every input, the string that \<open>computeHash\<close> returns, and so the string
  that \<open>HashObject\<close> returns, consists of 56 lower-case hexadecimal digits, the 28 bytes
  of a digest of 224 bits.
\<close>

theorem HashObject_digest_format:
  "is_hex_digest (computeHash target) \<and> is_hex_digest (HashObject iter y obj)
   \<and> length (Sum224 data) * 8 = 224"
  by (simp add: HashObject_def computeHash_format length_Sum224 split: prod.splits)

theorem HashObject_digest_format_witness:
  "is_hex_digest (computeHash ''null'')
   \<and> is_hex_digest (HashObject rev example_yaml3 example_a1b2)
   \<and> length (Sum224 [1, 2, 3]) * 8 = 224"
  using HashObject_digest_format [of "''null''" rev example_yaml3 example_a1b2 "[1, 2, 3]"]
  by simp




end
